theory Spec2Isabelle
  imports Complex_Main
begin

section \<open>Values, exceptions and tables\<close>

text \<open>
  Python strings are modelled as \<^typ>\<open>string\<close>, one \<^typ>\<open>char\<close> per code point
  below 256.  On that range the tables of \<^verbatim>\<open>str.strip\<close> and \<^verbatim>\<open>str.lower\<close> are
  the ones written out below.
\<close>

datatype exn_type =
    ValueError | JSONDecodeError | UnicodeDecodeError
  | IndexError | KeyError | NameError | TypeError | AttributeError | RuntimeError

text \<open>An exception object: its class, \<^verbatim>\<open>str(e)\<close> and \<^verbatim>\<open>__cause__\<close> (set by \<^verbatim>\<open>raise ... from e\<close>).\<close>

datatype exn = Exn (exn_type: exn_type) (message: string) (cause: "exn option")

text \<open>\<^verbatim>\<open>except ValueError\<close> also catches the subclasses of \<^verbatim>\<open>ValueError\<close>.\<close>

definition is_value_error :: "exn \<Rightarrow> bool" where
  "is_value_error e =
     (exn_type e = ValueError \<or> exn_type e = JSONDecodeError \<or> exn_type e = UnicodeDecodeError)"

text \<open>
  JSON-like Python values: what \<^verbatim>\<open>json.loads\<close> returns, the cells of a table and the
  dictionaries handed between the components.  A \<^verbatim>\<open>dict\<close> is an association list in
  insertion order.
\<close>

datatype json =
    JNull | JBool bool | JInt int | JFloat real | JStr string
  | JArr "json list" | JObj "(string \<times> json) list"

text \<open>\<^verbatim>\<open>d[k] = v\<close>: an existing key keeps its place, a new key goes last.\<close>

fun dict_set :: "string \<Rightarrow> 'v \<Rightarrow> (string \<times> 'v) list \<Rightarrow> (string \<times> 'v) list" where
  "dict_set k v [] = [(k, v)]"
| "dict_set k v ((k', v') # d) = (if k' = k then (k, v) # d else (k', v') # dict_set k v d)"

text \<open>
  A \<^verbatim>\<open>pandas.DataFrame\<close>: the column labels and the rows, each row holding one cell
  per column.
\<close>

record dataframe =
  columns :: "string list"
  rows :: "json list list"

definition df_empty :: "dataframe \<Rightarrow> bool" where
  "df_empty df = (columns df = [] \<or> rows df = [])"

section \<open>utils.py\<close>

text \<open>
  \<^verbatim>\<open>validate_dataset(df)\<close> returns \<^verbatim>\<open>None\<close> or raises \<^verbatim>\<open>ValueError\<close>.  The table
  is a mutable object passed by reference, so the model also returns the table as the
  call leaves it.
\<close>

definition validate_dataset :: "dataframe \<Rightarrow> (exn + unit) \<times> dataframe" where
  "validate_dataset df =
     (if df_empty df then (Inl (Exn ValueError ''Dataset is empty.'' None), df)
      else if length (columns df) < 2
        then (Inl (Exn ValueError ''Dataset must have at least 2 columns.'' None), df)
      else if card (set (columns df)) \<noteq> length (columns df)
        then (Inl (Exn ValueError ''Column names must be unique.'' None), df)
      else (Inr (), df))"

text \<open>The code points below 256 for which \<^verbatim>\<open>str.isspace\<close> holds.\<close>

definition is_space :: "char \<Rightarrow> bool" where
  "is_space c = ((of_char c :: nat) \<in> {9, 10, 11, 12, 13, 28, 29, 30, 31, 32, 133, 160})"

text \<open>\<^verbatim>\<open>s.strip()\<close>\<close>

definition strip :: "string \<Rightarrow> string" where
  "strip s = rev (dropWhile is_space (rev (dropWhile is_space s)))"

text \<open>\<^verbatim>\<open>s.replace(old, new)\<close> for one-character \<^verbatim>\<open>old\<close> and \<^verbatim>\<open>new\<close>.\<close>

definition replace_char :: "char \<Rightarrow> char \<Rightarrow> string \<Rightarrow> string" where
  "replace_char old new s = map (\<lambda>c. if c = old then new else c) s"

text \<open>
  \<^verbatim>\<open>s.lower()\<close> below 256: A-Z and the Latin-1 capitals 0xC0-0xDE (the
  multiplication sign 0xD7 apart) move up by 32.
\<close>

definition lower_char :: "char \<Rightarrow> char" where
  "lower_char c =
     (let n = (of_char c :: nat)
      in if (65 \<le> n \<and> n \<le> 90) \<or> (192 \<le> n \<and> n \<le> 222 \<and> n \<noteq> 215)
         then char_of (n + 32) else c)"

definition lower :: "string \<Rightarrow> string" where
  "lower s = map lower_char s"

definition sanitize_column_name :: "string \<Rightarrow> string" where
  "sanitize_column_name name = lower (replace_char CHR '' '' CHR ''_'' (strip name))"

section \<open>External collaborators\<close>

text \<open>A \<^verbatim>\<open>PointStruct\<close> of the vector store.\<close>

record point =
  point_id :: int
  point_vector :: "real list"
  point_payload :: "(string \<times> json) list"

text \<open>The calls that leave the process, in the order they are made.\<close>

datatype event =
    GenerateContent string
  | EmbedContent string
  | Upsert string "point list"

text \<open>
  The libraries and services the code calls are parameters.  Each returns its value or
  the exception it raised.
  \<^item> \<open>read_csv\<close>: \<^verbatim>\<open>pd.read_csv(StringIO(content.decode("utf-8")))\<close>;
  \<^item> \<open>frame_from_json\<close>: \<^verbatim>\<open>pd.DataFrame(json.loads(content.decode("utf-8")))\<close>;
  \<^item> \<open>model_available\<close>: the truth value of the module-level \<^verbatim>\<open>model\<close>;
  \<^item> \<open>generate_content\<close>: \<^verbatim>\<open>model.generate_content(prompt, ...).text\<close>;
  \<^item> \<open>json_loads\<close>: \<^verbatim>\<open>json.loads\<close>;
  \<^item> \<open>embed_content\<close>: \<^verbatim>\<open>genai.embed_content(...)["embedding"]\<close>;
  \<^item> \<open>px_chart\<close>: the plotly calls of one branch of \<^verbatim>\<open>create_chart\<close>
    (\<^verbatim>\<open>px.<name>(...)\<close>, \<^verbatim>\<open>update_layout\<close>, \<^verbatim>\<open>to_dict\<close>), the first argument
    naming the \<^verbatim>\<open>px\<close> function;
  \<^item> \<open>client_upsert\<close>: \<^verbatim>\<open>client.upsert(collection_name=..., wait=True, points=...)\<close>;
  \<^item> \<open>df_to_string\<close>: \<^verbatim>\<open>df.to_string()\<close>;
  \<^item> \<open>py_str\<close>: \<^verbatim>\<open>str(v)\<close> of a value that is not a string;
  \<^item> \<open>py_repr\<close>: \<^verbatim>\<open>str(columns)\<close> of a list of strings;
  \<^item> \<open>py_hash\<close>: \<^verbatim>\<open>hash((i, filename))\<close>;
  \<^item> \<open>json_roundtrip\<close>: \<^verbatim>\<open>json.loads(json.dumps(fig_dict, default=str))\<close>.
\<close>

record env =
  read_csv :: "string \<Rightarrow> exn + dataframe"
  frame_from_json :: "string \<Rightarrow> exn + dataframe"
  model_available :: bool
  generate_content :: "string \<Rightarrow> exn + string"
  json_loads :: "string \<Rightarrow> exn + json"
  embed_content :: "string \<Rightarrow> exn + real list"
  px_chart :: "string \<Rightarrow> dataframe \<Rightarrow> string \<Rightarrow> string \<Rightarrow> exn + json"
  client_upsert :: "string \<Rightarrow> point list \<Rightarrow> exn + unit"
  df_to_string :: "dataframe \<Rightarrow> string"
  py_str :: "json \<Rightarrow> string"
  py_repr :: "string list \<Rightarrow> string"
  py_hash :: "nat \<Rightarrow> string option \<Rightarrow> int"
  json_roundtrip :: "json \<Rightarrow> json"

text \<open>\<^verbatim>\<open>f"{v}"\<close>\<close>

definition str_of :: "env \<Rightarrow> json \<Rightarrow> string" where
  "str_of env v = (case v of JStr s \<Rightarrow> s | _ \<Rightarrow> py_str env v)"

text \<open>The truth value of an optional string: \<^verbatim>\<open>None\<close> and \<^verbatim>\<open>""\<close> are false.\<close>

definition truthy :: "string option \<Rightarrow> bool" where
  "truthy v = (case v of None \<Rightarrow> False | Some s \<Rightarrow> s \<noteq> [])"

section \<open>llm\_integration.py\<close>

definition chart_prompt :: "env \<Rightarrow> string \<Rightarrow> string list \<Rightarrow> string" where
  \<open>chart_prompt env query cols =
     ''\<newline>Given a user query '' @ [CHR 0x27] @ query @ [CHR 0x27]
     @ '' and available dataset columns '' @ py_repr env cols
     @ '', suggest a chart type (line, bar, pie, scatter, heatmap) and the X and Y axis labels. Respond in JSON format with the keys: "chart_type", "x", and "y".\<newline>''\<close>

text \<open>
  The expression every fallback returns:
  \<^verbatim>\<open>{"chart_type": "scatter", "x": columns[0], "y": columns[1]} if len(columns) >= 2
     else {"chart_type": "scatter", "x": columns[0], "y": None}\<close>.
  On an empty list \<^verbatim>\<open>columns[0]\<close> raises \<^verbatim>\<open>IndexError\<close>.
\<close>

definition default_config :: "string list \<Rightarrow> exn + json" where
  "default_config cols =
     (if 2 \<le> length cols
      then Inr (JObj [(''chart_type'', JStr ''scatter''), (''x'', JStr (cols ! 0)), (''y'', JStr (cols ! 1))])
      else (case cols of
              [] \<Rightarrow> Inl (Exn IndexError ''list index out of range'' None)
            | c # _ \<Rightarrow> Inr (JObj [(''chart_type'', JStr ''scatter''), (''x'', JStr c), (''y'', JNull)])))"

text \<open>\<^verbatim>\<open>v in columns\<close> for a list of strings: only a string equals a string.\<close>

definition in_list :: "json \<Rightarrow> string list \<Rightarrow> bool" where
  "in_list v cols = (case v of JStr s \<Rightarrow> s \<in> set cols | _ \<Rightarrow> False)"

text \<open>
  \<^verbatim>\<open>interpret_query\<close>.  Both handlers (\<^verbatim>\<open>except json.JSONDecodeError\<close> and the outer
  \<^verbatim>\<open>except Exception\<close>) return the fallback; an \<^verbatim>\<open>IndexError\<close> raised while a handler
  builds it leaves the function.
\<close>

definition interpret_query :: "env \<Rightarrow> string \<Rightarrow> string list \<Rightarrow> event list \<times> (exn + json)" where
  "interpret_query env query cols =
     (if \<not> model_available env then ([], default_config cols)
      else
        let full_prompt = chart_prompt env query cols in
        (case generate_content env full_prompt of
           Inl e \<Rightarrow> ([GenerateContent full_prompt], default_config cols)
         | Inr text \<Rightarrow>
             (case json_loads env (strip text) of
                Inl e \<Rightarrow> ([GenerateContent full_prompt], default_config cols)
              | Inr chart_config \<Rightarrow>
                  (case chart_config of
                     JObj kvs \<Rightarrow>
                       (case (map_of kvs ''chart_type'', map_of kvs ''x'', map_of kvs ''y'') of
                          (Some t, Some x, Some y) \<Rightarrow>
                            if \<not> in_list x cols \<or> \<not> in_list y cols
                            then ([GenerateContent full_prompt], default_config cols)
                            else ([GenerateContent full_prompt], Inr chart_config)
                        | _ \<Rightarrow> ([GenerateContent full_prompt], default_config cols))
                   | _ \<Rightarrow> ([GenerateContent full_prompt], default_config cols)))))"

definition generate_embedding :: "env \<Rightarrow> string \<Rightarrow> event list \<times> real list option" where
  "generate_embedding env text =
     (if \<not> model_available env then ([], None)
      else (case embed_content env text of
              Inl e \<Rightarrow> ([EmbedContent text], None)
            | Inr v \<Rightarrow> ([EmbedContent text], Some v)))"

section \<open>chart\_generator.py\<close>

text \<open>
  The \<^verbatim>\<open>raise ValueError(f"Unsupported chart type: ...")\<close> of the last branch is inside
  the \<^verbatim>\<open>try\<close>, so the handler \<^verbatim>\<open>except Exception as e\<close> catches it like any failure
  of plotly and raises \<^verbatim>\<open>ValueError("Failed to generate chart.") from e\<close>.
\<close>

definition create_chart :: "env \<Rightarrow> json \<Rightarrow> dataframe \<Rightarrow> string \<Rightarrow> string \<Rightarrow> exn + json" where
  "create_chart env chart_type df x_axis y_axis =
     (case (if chart_type = JStr ''line'' then px_chart env ''line'' df x_axis y_axis
            else if chart_type = JStr ''bar'' then px_chart env ''bar'' df x_axis y_axis
            else if chart_type = JStr ''pie'' then px_chart env ''pie'' df x_axis y_axis
            else if chart_type = JStr ''scatter'' then px_chart env ''scatter'' df x_axis y_axis
            else if chart_type = JStr ''heatmap'' then px_chart env ''density_heatmap'' df x_axis y_axis
            else Inl (Exn ValueError (''Unsupported chart type: '' @ str_of env chart_type) None)) of
        Inl e \<Rightarrow> Inl (Exn ValueError ''Failed to generate chart.'' (Some e))
      | Inr fig_dict \<Rightarrow> Inr fig_dict)"

section \<open>database.py\<close>

definition COLLECTION_NAME :: string where
  "COLLECTION_NAME = ''charts''"

text \<open>\<^verbatim>\<open>df.iloc[i].to_dict()\<close> for the row \<open>row\<close>.\<close>

definition row_to_dict :: "string list \<Rightarrow> json list \<Rightarrow> (string \<times> json) list" where
  "row_to_dict cols row = fold (\<lambda>(k, v) d. dict_set k v d) (zip cols row) []"

text \<open>
  The loop \<^verbatim>\<open>for i in range(len(df))\<close> of \<^verbatim>\<open>save_embeddings\<close>: the rows still to
  visit, the index \<open>i\<close> of the first of them and the points built so far.
  \<^verbatim>\<open>embeddings[i]\<close> raises \<^verbatim>\<open>IndexError\<close> at the first index the list does not have.
\<close>

fun build_points ::
  "env \<Rightarrow> string list \<Rightarrow> real list list \<Rightarrow> string option \<Rightarrow> nat \<Rightarrow> json list list \<Rightarrow> point list
   \<Rightarrow> exn + point list" where
  "build_points env cols embeddings filename i [] points = Inr points"
| "build_points env cols embeddings filename i (row # rest) points =
     (let payload0 = row_to_dict cols row;
          payload = (if truthy filename then dict_set ''filename'' (JStr (the filename)) payload0
                     else payload0)
      in if i < length embeddings
         then build_points env cols embeddings filename (Suc i) rest
                (points @ [\<lparr>point_id = py_hash env i filename, point_vector = embeddings ! i,
                            point_payload = payload\<rparr>])
         else Inl (Exn IndexError ''list index out of range'' None))"

text \<open>\<^verbatim>\<open>save_embeddings\<close>: its handler logs and raises the exception again.\<close>

definition save_embeddings ::
  "env \<Rightarrow> dataframe \<Rightarrow> real list list \<Rightarrow> string \<Rightarrow> string option \<Rightarrow> event list \<times> (exn + unit)" where
  "save_embeddings env df embeddings collection_name filename =
     (case build_points env (columns df) embeddings filename 0 (rows df) [] of
        Inl e \<Rightarrow> ([], Inl e)
      | Inr points \<Rightarrow>
          (case client_upsert env collection_name points of
             Inl e \<Rightarrow> ([Upsert collection_name points], Inl e)
           | Inr u \<Rightarrow> ([Upsert collection_name points], Inr ())))"

section \<open>routes.py\<close>

text \<open>
  What the global name \<^verbatim>\<open>save_embeddings\<close> stands for in \<^verbatim>\<open>routes.py\<close> when
  \<^verbatim>\<open>save_embeddings(df, [embedding], filename=filename)\<close> is evaluated.
\<close>

type_synonym save_binding =
  "env \<Rightarrow> dataframe \<Rightarrow> real list list \<Rightarrow> string option \<Rightarrow> event list \<times> (exn + unit)"

text \<open>
  \<^verbatim>\<open>routes.py\<close> imports \<^verbatim>\<open>create_chart\<close>, \<^verbatim>\<open>interpret_query\<close>, \<^verbatim>\<open>analyze_data\<close>,
  \<^verbatim>\<open>generate_embedding\<close>, \<^verbatim>\<open>validate_dataset\<close> and \<^verbatim>\<open>sanitize_column_name\<close>, and
  nothing from \<^verbatim>\<open>database.py\<close>: the name is unbound and its evaluation raises
  \<^verbatim>\<open>NameError\<close>.
\<close>

definition routes_save_embeddings :: save_binding where
  "routes_save_embeddings env df embeddings filename =
     ([], Inl (Exn NameError (''name '' @ [CHR 0x27] @ ''save_embeddings'' @ [CHR 0x27] @ '' is not defined'') None))"

text \<open>The binding \<^verbatim>\<open>from database import save_embeddings\<close> would give.\<close>

definition imported_save_embeddings :: save_binding where
  "imported_save_embeddings env df embeddings filename =
     save_embeddings env df embeddings COLLECTION_NAME filename"

text \<open>The data loading of \<^verbatim>\<open>generate_chart\<close>, by \<^verbatim>\<open>data_type\<close>.\<close>

definition load_dataframe :: "env \<Rightarrow> string option \<Rightarrow> string \<Rightarrow> exn + dataframe" where
  "load_dataframe env data_type data_content =
     (if data_type = Some ''json'' then
        (case frame_from_json env data_content of
           Inl e \<Rightarrow>
             if exn_type e = JSONDecodeError
             then Inl (Exn ValueError (''Invalid JSON data: '' @ message e) (Some e))
             else Inl e
         | Inr df \<Rightarrow> Inr df)
      else if data_type = Some ''file'' then
        (case read_csv env data_content of
           Inl e \<Rightarrow>
             (case frame_from_json env data_content of
                Inl e' \<Rightarrow>
                  Inl (Exn ValueError
                        (''Error processing file content as CSV or JSON: '' @ message e') (Some e'))
              | Inr df \<Rightarrow> Inr df)
         | Inr df \<Rightarrow> Inr df)
      else if data_type = Some ''manual'' then
        (case read_csv env data_content of
           Inl e \<Rightarrow>
             Inl (Exn ValueError (''Error processing manual CSV data: '' @ message e) (Some e))
         | Inr df \<Rightarrow> Inr df)
      else Inl (Exn ValueError ''Unknown data type.'' None))"

text \<open>
  \<^verbatim>\<open>if chart_type: chart_config = {...} else: chart_config = interpret_query(...)\<close>
\<close>

definition resolve_config ::
  "env \<Rightarrow> string \<Rightarrow> string option \<Rightarrow> string list \<Rightarrow> event list \<times> (exn + json)" where
  "resolve_config env query chart_type cols =
     (if truthy chart_type
      then (case cols of
              c0 # c1 # _ \<Rightarrow>
                ([], Inr (JObj [(''chart_type'', JStr (the chart_type)), (''x'', JStr c0), (''y'', JStr c1)]))
            | [c0] \<Rightarrow>
                ([], Inl (Exn IndexError ''index 1 is out of bounds for axis 0 with size 1'' None))
            | [] \<Rightarrow>
                ([], Inl (Exn IndexError ''index 0 is out of bounds for axis 0 with size 0'' None)))
      else interpret_query env query cols)"

text \<open>\<^verbatim>\<open>chart_config[key]\<close>\<close>

definition dict_get :: "json \<Rightarrow> string \<Rightarrow> exn + json" where
  "dict_get d key =
     (case d of
        JObj kvs \<Rightarrow>
          (case map_of kvs key of
             None \<Rightarrow> Inl (Exn KeyError ([CHR 0x27] @ key @ [CHR 0x27]) None)
           | Some v \<Rightarrow> Inr v)
      | _ \<Rightarrow> Inl (Exn TypeError ''not subscriptable'' None))"

text \<open>
  \<^verbatim>\<open>df[[x_axis, y_axis]]\<close>: for each key in turn, every column with that label, as
  (label, values).
\<close>

definition getitem_columns :: "dataframe \<Rightarrow> string list \<Rightarrow> (string \<times> json list) list" where
  "getitem_columns df keys =
     concat (map (\<lambda>k. map (\<lambda>j. (k, map (\<lambda>r. r ! j) (rows df)))
                           (filter (\<lambda>j. columns df ! j = k) [0..<length (columns df)]))
                 keys)"

text \<open>\<^verbatim>\<open>.to_dict(orient="list")\<close>: a later column of the same label replaces the earlier.\<close>

definition to_dict_list :: "(string \<times> json list) list \<Rightarrow> (string \<times> json) list" where
  "to_dict_list cs = fold (\<lambda>(k, vs) d. dict_set k (JArr vs) d) cs []"

text \<open>
  \<^verbatim>\<open>generate_chart\<close> up to the check of the axes: loading, validation, sanitization,
  the chart configuration and \<^verbatim>\<open>if x_axis not in df.columns or y_axis not in df.columns\<close>.
  It yields the table with its sanitized labels, the chart type and the two axes.
\<close>

definition chart_inputs ::
  "env \<Rightarrow> string \<Rightarrow> string \<Rightarrow> string option \<Rightarrow> string option
   \<Rightarrow> event list \<times> (exn + dataframe \<times> json \<times> string \<times> string)" where
  "chart_inputs env query data_content chart_type data_type =
     (case load_dataframe env data_type data_content of
        Inl e \<Rightarrow> ([], Inl e)
      | Inr df0 \<Rightarrow>
          (case validate_dataset df0 of
             (Inl e, df1) \<Rightarrow> ([], Inl e)
           | (Inr u, df1) \<Rightarrow>
               let df = df1\<lparr>columns := map sanitize_column_name (columns df1)\<rparr> in
               (case resolve_config env query chart_type (columns df) of
                  (tr, Inl e) \<Rightarrow> (tr, Inl e)
                | (tr, Inr chart_config) \<Rightarrow>
                    (case dict_get chart_config ''chart_type'' of
                       Inl e \<Rightarrow> (tr, Inl e)
                     | Inr ct \<Rightarrow>
                    (case dict_get chart_config ''x'' of
                       Inl e \<Rightarrow> (tr, Inl e)
                     | Inr x_axis \<Rightarrow>
                    (case dict_get chart_config ''y'' of
                       Inl e \<Rightarrow> (tr, Inl e)
                     | Inr y_axis \<Rightarrow>
                         if \<not> in_list x_axis (columns df) \<or> \<not> in_list y_axis (columns df)
                         then (tr, Inl (Exn ValueError
                                 (''Columns '' @ [CHR 0x27] @ str_of env x_axis @ [CHR 0x27] @ '' or ''
                                  @ [CHR 0x27] @ str_of env y_axis @ [CHR 0x27] @ '' not found in dataset'')
                                 None))
                         else (tr, Inr (df, ct, str_of env x_axis, str_of env y_axis))))))))"

text \<open>
  \<^verbatim>\<open>generate_chart\<close>, with the binding of \<^verbatim>\<open>save_embeddings\<close> as a parameter.  The
  outer handler logs and raises the exception again.
\<close>

definition generate_chart_with ::
  "save_binding \<Rightarrow> env \<Rightarrow> string \<Rightarrow> string \<Rightarrow> string option \<Rightarrow> string option \<Rightarrow> string option
   \<Rightarrow> event list \<times> (exn + json)" where
  "generate_chart_with save env query data_content chart_type data_type filename =
     (case chart_inputs env query data_content chart_type data_type of
        (tr, Inl e) \<Rightarrow> (tr, Inl e)
      | (tr, Inr (df, ct, x_axis, y_axis)) \<Rightarrow>
          (case create_chart env ct df x_axis y_axis of
             Inl e \<Rightarrow> (tr, Inl e)
           | Inr fig_dict \<Rightarrow>
               let combined_text =
                     query @ '' '' @ df_to_string env df @ '' chart type '' @ str_of env ct
                     @ '' x axis '' @ x_axis @ '' y axis '' @ y_axis;
                   emb = generate_embedding env combined_text;
                   tr_save =
                     (case snd emb of
                        None \<Rightarrow> []
                      | Some embedding \<Rightarrow>
                          if embedding \<noteq> [] then fst (save env df [embedding] filename) else [])
               in (tr @ fst emb @ tr_save,
                   Inr (JObj [(''chart_type'', ct),
                              (''x_axis'', JStr x_axis),
                              (''y_axis'', JStr y_axis),
                              (''data'', JObj (to_dict_list (getitem_columns df [x_axis, y_axis]))),
                              (''plotly_data'', json_roundtrip env fig_dict),
                              (''status'', JStr ''success'')]))))"

text \<open>\<^verbatim>\<open>generate_chart\<close> as the module has it.\<close>

definition generate_chart ::
  "env \<Rightarrow> string \<Rightarrow> string \<Rightarrow> string option \<Rightarrow> string option \<Rightarrow> string option
   \<Rightarrow> event list \<times> (exn + json)" where
  "generate_chart = generate_chart_with routes_save_embeddings"

section \<open>app.py\<close>

record upload_file =
  upload_filename :: "string option"
  upload_content :: string

text \<open>The form fields of \<^verbatim>\<open>POST /generate-chart/\<close>; an absent field is \<^verbatim>\<open>None\<close>.\<close>

record chart_request =
  req_query :: string
  req_chart_type :: "string option"
  req_file :: "upload_file option"
  req_json_data :: "string option"
  req_manual_data :: "string option"

datatype http_exception = HTTPException (status_code: nat) (detail: string)

text \<open>What the body of the \<^verbatim>\<open>try\<close> raises.\<close>

datatype raised = Http http_exception | Py exn

definition endswith :: "string \<Rightarrow> string \<Rightarrow> bool" where
  "endswith s suffix =
     (length suffix \<le> length s \<and> drop (length s - length suffix) s = suffix)"

definition call_generate_chart ::
  "event list \<times> (exn + json) \<Rightarrow> event list \<times> (raised + json)" where
  "call_generate_chart r = (fst r, case snd r of Inl e \<Rightarrow> Inl (Py e) | Inr v \<Rightarrow> Inr v)"

text \<open>
  The handlers of the endpoint: \<^verbatim>\<open>except HTTPException\<close> raises it again,
  \<^verbatim>\<open>except ValueError\<close> answers 400 with \<^verbatim>\<open>str(value_exc)\<close>, \<^verbatim>\<open>except Exception\<close>
  answers 500.
\<close>

definition handle_exceptions ::
  "event list \<times> (raised + json) \<Rightarrow> event list \<times> (http_exception + json)" where
  "handle_exceptions body =
     (fst body,
      case snd body of
        Inl (Http http_exc) \<Rightarrow> Inl http_exc
      | Inl (Py e) \<Rightarrow>
          if is_value_error e then Inl (HTTPException 400 (message e))
          else Inl (HTTPException 500 (''Unexpected error: '' @ message e))
      | Inr response \<Rightarrow> Inr response)"

text \<open>
  The endpoint \<^verbatim>\<open>create_chart\<close> of \<^verbatim>\<open>app.py\<close>.  The text of \<^verbatim>\<open>json_data\<close> and
  \<^verbatim>\<open>manual_data\<close> is encoded here and decoded again by the loader, so it is passed on
  as it is.
\<close>

definition app_create_chart :: "env \<Rightarrow> chart_request \<Rightarrow> event list \<times> (http_exception + json)" where
  "app_create_chart env req =
     handle_exceptions
            (case req_file req of
               Some file \<Rightarrow>
                 (case upload_filename file of
                    None \<Rightarrow>
                      ([], Inl (Py (Exn AttributeError
                         ([CHR 0x27] @ ''NoneType'' @ [CHR 0x27] @ '' object has no attribute ''
                          @ [CHR 0x27] @ ''endswith'' @ [CHR 0x27]) None)))
                  | Some name \<Rightarrow>
                      if \<not> (endswith name ''.csv'' \<or> endswith name ''.json'')
                      then ([], Inl (Http (HTTPException 400 ''Only CSV and JSON files are supported'')))
                      else call_generate_chart
                             (generate_chart env (req_query req) (upload_content file)
                                (req_chart_type req) (Some ''file'') (Some name)))
             | None \<Rightarrow>
                 if truthy (req_json_data req)
                 then call_generate_chart
                        (generate_chart env (req_query req) (the (req_json_data req))
                           (req_chart_type req) (Some ''json'') None)
                 else if truthy (req_manual_data req)
                 then call_generate_chart
                        (generate_chart env (req_query req) (the (req_manual_data req))
                           (req_chart_type req) (Some ''manual'') None)
                 else ([], Inl (Http (HTTPException 400 ''No data provided''))))"

section \<open>Example inputs\<close>

text \<open>
  Stand-ins for \<^verbatim>\<open>pd.read_csv\<close>, for \<^verbatim>\<open>pd.DataFrame(json.loads(...))\<close> and for
  \<^verbatim>\<open>json.loads\<close> that know the values of a few texts.
\<close>

definition example_read_csv :: "string \<Rightarrow> exn + dataframe" where
  "example_read_csv s =
     (if s = ''a,b\<newline>1,2\<newline>3,4''
        then Inr \<lparr>columns = [''a'', ''b''], rows = [[JInt 1, JInt 2], [JInt 3, JInt 4]]\<rparr>
      else if s = ''A,a\<newline>1,2''
        then Inr \<lparr>columns = [''A'', ''a''], rows = [[JInt 1, JInt 2]]\<rparr>
      else if s = ''a b,a_b\<newline>1,2''
        then Inr \<lparr>columns = [''a b'', ''a_b''], rows = [[JInt 1, JInt 2]]\<rparr>
      else Inl (Exn ValueError ''No columns to parse from file'' None))"

definition example_frame_from_json :: "string \<Rightarrow> exn + dataframe" where
  \<open>example_frame_from_json s =
     (if s = ''[{"a": 1, "b": 2}]''
        then Inr \<lparr>columns = [''a'', ''b''], rows = [[JInt 1, JInt 2]]\<rparr>
      else Inl (Exn JSONDecodeError ''Expecting value: line 1 column 1 (char 0)'' None))\<close>

definition example_json_loads :: "string \<Rightarrow> exn + json" where
  \<open>example_json_loads s =
     (if s = ''{"chart_type": "bar", "x": "b", "y": "a"}''
        then Inr (JObj [(''chart_type'', JStr ''bar''), (''x'', JStr ''b''), (''y'', JStr ''a'')])
      else if s = ''{"chart_type": "bar", "x": "a"}''
        then Inr (JObj [(''chart_type'', JStr ''bar''), (''x'', JStr ''a'')])
      else if s = ''{"chart_type": "bar", "x": "a", "y": "z"}''
        then Inr (JObj [(''chart_type'', JStr ''bar''), (''x'', JStr ''a''), (''y'', JStr ''z'')])
      else if s = ''["bar", "a", "b"]''
        then Inr (JArr [JStr ''bar'', JStr ''a'', JStr ''b''])
      else Inl (Exn JSONDecodeError ''Expecting value: line 1 column 1 (char 0)'' None))\<close>

text \<open>
  An environment whose language-model and embedding services are down, whose renderer
  answers with a figure that records what it was given, and whose vector store accepts
  every write.
\<close>

definition example_env :: env where
  "example_env =
     \<lparr>read_csv = example_read_csv,
      frame_from_json = example_frame_from_json,
      model_available = True,
      generate_content = (\<lambda>p. Inl (Exn RuntimeError ''service unavailable'' None)),
      json_loads = example_json_loads,
      embed_content = (\<lambda>t. Inl (Exn RuntimeError ''service unavailable'' None)),
      px_chart = (\<lambda>name df x y.
         Inr (JObj [(''px'', JStr name), (''columns'', JArr (map JStr (columns df))),
                    (''x'', JStr x), (''y'', JStr y)])),
      client_upsert = (\<lambda>c ps. Inr ()),
      df_to_string = (\<lambda>df. ''<table>''),
      py_str = (\<lambda>v. ''<value>''),
      py_repr = (\<lambda>cs. ''<list>''),
      py_hash = (\<lambda>i f. int i),
      json_roundtrip = (\<lambda>v. v)\<rparr>"

text \<open>The same environment with a language model that answers \<open>reply\<close>.\<close>

definition reply_env :: "string \<Rightarrow> env" where
  "reply_env reply = example_env\<lparr>generate_content := (\<lambda>p. Inr reply)\<rparr>"

text \<open>The same environment with a renderer that fails on every call.\<close>

definition failing_px_env :: env where
  "failing_px_env =
     example_env\<lparr>px_chart := (\<lambda>name df x y.
        Inl (Exn ValueError ''Value of y is not the name of a column in data_frame'' None))\<rparr>"

text \<open>
  The same environment with an embedding service that answers and a vector store that
  refuses every write.
\<close>

definition embedding_env :: env where
  "embedding_env =
     example_env\<lparr>embed_content := (\<lambda>t. Inr [1 / 2, 1 / 4]),
                 client_upsert := (\<lambda>c ps. Inl (Exn RuntimeError ''connection refused'' None))\<rparr>"

section \<open>Properties of utils.py\<close>

lemma lower_char_idem: "lower_char (lower_char c) = lower_char c"
proof -
  have "of_char (char_of (of_char c + 32 :: nat)) = (of_char c + 32 :: nat)"
    if "(of_char c :: nat) \<le> 222"
    using that by simp
  then show ?thesis
    by (auto simp: lower_char_def Let_def)
qed

lemma is_space_lower_char: "is_space (lower_char c) = is_space c"
proof -
  have "of_char (char_of (of_char c + 32 :: nat)) = (of_char c + 32 :: nat)"
    if "(of_char c :: nat) \<le> 222"
    using that by simp
  then show ?thesis
    by (auto simp: lower_char_def is_space_def Let_def)
qed

lemma lower_char_eq_space: "lower_char c = CHR '' '' \<longleftrightarrow> c = CHR '' ''"
proof
  assume h: "lower_char c = CHR '' ''"
  have e: "of_char (char_of (of_char c + 32 :: nat)) = (of_char c + 32 :: nat)"
    if "(of_char c :: nat) \<le> 222"
    using that by simp
  show "c = CHR '' ''"
  proof (rule ccontr)
    assume n: "c \<noteq> CHR '' ''"
    then have "lower_char c = char_of (of_char c + 32 :: nat)"
      and u: "(65 \<le> (of_char c :: nat) \<and> (of_char c :: nat) \<le> 90)
            \<or> (192 \<le> (of_char c :: nat) \<and> (of_char c :: nat) \<le> 222)"
      using h by (auto simp: lower_char_def Let_def split: if_splits)
    with h have "(of_char (CHR '' '') :: nat) = of_char (char_of (of_char c + 32 :: nat))"
      by simp
    with e u show False by auto
  qed
next
  assume "c = CHR '' ''"
  then show "lower_char c = CHR '' ''"
    by (simp add: lower_char_def)
qed

lemma strip_fixed:
  assumes "s = [] \<or> (\<not> is_space (hd s) \<and> \<not> is_space (last s))"
  shows "strip s = s"
proof (cases s)
  case Nil
  then show ?thesis by (simp add: strip_def)
next
  case (Cons c cs)
  with assms have a: "\<not> is_space (hd s)" and b: "\<not> is_space (last s)"
    by auto
  from Cons a have "dropWhile is_space s = s"
    by simp
  moreover from Cons b have "dropWhile is_space (rev s) = rev s"
    by (cases "rev s") (auto simp: hd_rev [symmetric] simp del: hd_rev)
  ultimately show ?thesis
    by (simp add: strip_def)
qed

lemma last_dropWhile_nonempty:
  "dropWhile P xs \<noteq> [] \<Longrightarrow> last (dropWhile P xs) = last xs"
  by (induction xs) auto

lemma strip_ends: "strip s = [] \<or> (\<not> is_space (hd (strip s)) \<and> \<not> is_space (last (strip s)))"
proof (cases "strip s = []")
  case True
  then show ?thesis by simp
next
  case False
  let ?t = "dropWhile is_space s"
  let ?u = "dropWhile is_space (rev ?t)"
  from False have u: "?u \<noteq> []"
    by (simp add: strip_def)
  then have hu: "\<not> is_space (hd ?u)"
    by (rule hd_dropWhile)
  have t: "?t \<noteq> []"
  proof
    assume "?t = []"
    then have "?u = dropWhile is_space (rev [])"
      by (rule arg_cong)
    with u show False
      by simp
  qed
  then have ht: "\<not> is_space (hd ?t)"
    by (rule hd_dropWhile)
  from u have "last ?u = last (rev ?t)"
    by (rule last_dropWhile_nonempty)
  with t have lu: "last ?u = hd ?t"
    by (simp add: last_rev)
  have "hd (strip s) = last ?u" and "last (strip s) = hd ?u"
    using u by (simp_all add: strip_def hd_rev last_rev)
  with hu ht lu show ?thesis
    by simp
qed

lemma strip_decompose:
  "\<exists>pre post. s = pre @ strip s @ post \<and> (\<forall>c\<in>set pre. is_space c) \<and> (\<forall>c\<in>set post. is_space c)"
proof -
  let ?t = "dropWhile is_space s"
  have s: "s = takeWhile is_space s @ ?t"
    by simp
  have "rev (takeWhile is_space (rev ?t) @ dropWhile is_space (rev ?t)) = rev (rev ?t)"
    by (simp only: takeWhile_dropWhile_id)
  then have "rev (dropWhile is_space (rev ?t)) @ rev (takeWhile is_space (rev ?t)) = ?t"
    by (simp only: rev_append rev_rev_ident)
  then have t: "?t = strip s @ rev (takeWhile is_space (rev ?t))"
    by (simp only: strip_def)
  have "s = takeWhile is_space s @ strip s @ rev (takeWhile is_space (rev ?t))"
    using s t by metis
  moreover have "\<forall>c\<in>set (takeWhile is_space s). is_space c"
    by (auto dest: set_takeWhileD)
  moreover have "\<forall>c\<in>set (rev (takeWhile is_space (rev ?t))). is_space c"
    by (auto dest: set_takeWhileD)
  ultimately show ?thesis
    by blast
qed

lemma sanitize_ends:
  "sanitize_column_name s = []
   \<or> (\<not> is_space (hd (sanitize_column_name s)) \<and> \<not> is_space (last (sanitize_column_name s)))"
proof (cases "strip s = []")
  case True
  then show ?thesis
    by (simp add: sanitize_column_name_def lower_def replace_char_def)
next
  case False
  let ?f = "\<lambda>c. lower_char (if c = CHR '' '' then CHR ''_'' else c)"
  have e: "sanitize_column_name s = map ?f (strip s)"
    by (simp add: sanitize_column_name_def lower_def replace_char_def)
  from False strip_ends [of s]
  have a: "\<not> is_space (hd (strip s))" and b: "\<not> is_space (last (strip s))"
    by auto
  have sp: "is_space CHR '' ''"
    by (simp add: is_space_def)
  from a sp have "hd (strip s) \<noteq> CHR '' ''" by auto
  with a have a': "\<not> is_space (?f (hd (strip s)))"
    by (simp add: is_space_lower_char)
  from b sp have "last (strip s) \<noteq> CHR '' ''" by auto
  with b have b': "\<not> is_space (?f (last (strip s)))"
    by (simp add: is_space_lower_char)
  from False a' b' show ?thesis
    unfolding e by (simp add: hd_map last_map)
qed

lemma sanitize_no_space: "CHR '' '' \<notin> set (sanitize_column_name s)"
proof -
  have "lower_char (if c = CHR '' '' then CHR ''_'' else c) \<noteq> CHR '' ''" for c
    by (simp add: lower_char_eq_space)
  then have "CHR '' '' \<notin> (\<lambda>c. lower_char (if c = CHR '' '' then CHR ''_'' else c)) ` set (strip s)"
    by (metis (mono_tags, lifting) imageE)
  then show ?thesis
    by (simp add: sanitize_column_name_def lower_def replace_char_def image_image)
qed

lemma sanitize_idem: "sanitize_column_name (sanitize_column_name s) = sanitize_column_name s"
proof -
  let ?r = "sanitize_column_name s"
  have 1: "strip ?r = ?r"
    using sanitize_ends [of s] by (rule strip_fixed)
  have 2: "replace_char CHR '' '' CHR ''_'' ?r = ?r"
    unfolding replace_char_def using sanitize_no_space [of s]
    by (intro map_idI) auto
  have 3: "lower ?r = ?r"
    by (simp add: sanitize_column_name_def lower_def lower_char_idem)
  have "sanitize_column_name ?r = lower (replace_char CHR '' '' CHR ''_'' (strip ?r))"
    by (simp only: sanitize_column_name_def)
  with 1 2 3 show ?thesis
    by simp
qed

lemma validate_ok_iff:
  "fst (validate_dataset df) = Inr ()
   \<longleftrightarrow> 1 \<le> length (rows df) \<and> 2 \<le> length (columns df) \<and> distinct (columns df)"
proof -
  have "card (set (columns df)) = length (columns df) \<longleftrightarrow> distinct (columns df)"
    by (auto simp: distinct_card dest: card_distinct)
  moreover have "rows df = [] \<longleftrightarrow> \<not> 1 \<le> length (rows df)"
    by (cases "rows df") simp_all
  moreover have "2 \<le> length (columns df) \<Longrightarrow> columns df \<noteq> []"
    by auto
  ultimately show ?thesis
    unfolding validate_dataset_def df_empty_def
    by (simp add: not_less)
qed

section \<open>The validator and the sanitizer\<close>

text \<open>
  Claim C5.  \<^verbatim>\<open>validate_dataset\<close> returns without error exactly when the table has at
  least one row, at least two columns and pairwise different column names; in every
  other case it raises \<^verbatim>\<open>ValueError\<close> (the code's error for an invalid dataset); and
  the table is the same after the call as before it.
\<close>

theorem validate_dataset_contract:
  "(fst (validate_dataset df) = Inr ()
      \<longleftrightarrow> 1 \<le> length (rows df) \<and> 2 \<le> length (columns df) \<and> distinct (columns df))
   \<and> (fst (validate_dataset df) \<noteq> Inr ()
      \<longrightarrow> (\<exists>m. fst (validate_dataset df) = Inl (Exn ValueError m None)))
   \<and> snd (validate_dataset df) = df"
proof (intro conjI)
  show "fst (validate_dataset df) = Inr ()
      \<longleftrightarrow> 1 \<le> length (rows df) \<and> 2 \<le> length (columns df) \<and> distinct (columns df)"
    by (rule validate_ok_iff)
  show "fst (validate_dataset df) \<noteq> Inr ()
      \<longrightarrow> (\<exists>m. fst (validate_dataset df) = Inl (Exn ValueError m None))"
    by (simp add: validate_dataset_def)
  show "snd (validate_dataset df) = df"
    by (simp add: validate_dataset_def)
qed

theorem validate_dataset_contract_witness:
  "fst (validate_dataset \<lparr>columns = [''a'', ''b''], rows = [[JInt 1, JInt 2]]\<rparr>) = Inr ()
   \<and> fst (validate_dataset \<lparr>columns = [''a'', ''a''], rows = [[JInt 1, JInt 2]]\<rparr>) \<noteq> Inr ()
   \<and> snd (validate_dataset \<lparr>columns = [''a'', ''a''], rows = [[JInt 1, JInt 2]]\<rparr>)
       = \<lparr>columns = [''a'', ''a''], rows = [[JInt 1, JInt 2]]\<rparr>"
  using validate_dataset_contract [of "\<lparr>columns = [''a'', ''b''], rows = [[JInt 1, JInt 2]]\<rparr>"]
    validate_dataset_contract [of "\<lparr>columns = [''a'', ''a''], rows = [[JInt 1, JInt 2]]\<rparr>"]
  by simp

text \<open>
  Claim C6.  \<^verbatim>\<open>sanitize_column_name\<close> maps \<^verbatim>\<open>" Revenue Growth "\<close> to
  \<^verbatim>\<open>"revenue_growth"\<close> and the empty string to itself, and applying it twice is the
  same as applying it once.  Its result is what is left of the string between its
  leading and its trailing whitespace, with every space turned into an underscore and
  every character lowercased.
\<close>

theorem sanitize_column_name_spec:
  "sanitize_column_name '' Revenue Growth '' = ''revenue_growth''
   \<and> sanitize_column_name [] = []
   \<and> sanitize_column_name (sanitize_column_name s) = sanitize_column_name s
   \<and> (\<exists>pre mid post.
         s = pre @ mid @ post
         \<and> (\<forall>c\<in>set pre. is_space c) \<and> (\<forall>c\<in>set post. is_space c)
         \<and> (mid = [] \<or> (\<not> is_space (hd mid) \<and> \<not> is_space (last mid)))
         \<and> sanitize_column_name s
             = map (\<lambda>c. lower_char (if c = CHR '' '' then CHR ''_'' else c)) mid)"
proof (intro conjI)
  show "sanitize_column_name '' Revenue Growth '' = ''revenue_growth''"
    by code_simp
  show "sanitize_column_name [] = []"
    by code_simp
  show "sanitize_column_name (sanitize_column_name s) = sanitize_column_name s"
    by (rule sanitize_idem)
  obtain pre post where d: "s = pre @ strip s @ post"
    and pre: "\<forall>c\<in>set pre. is_space c" and post: "\<forall>c\<in>set post. is_space c"
    using strip_decompose [of s] by blast
  have "sanitize_column_name s
          = map (\<lambda>c. lower_char (if c = CHR '' '' then CHR ''_'' else c)) (strip s)"
    by (simp add: sanitize_column_name_def lower_def replace_char_def)
  with d pre post strip_ends [of s]
  show "\<exists>pre mid post.
         s = pre @ mid @ post
         \<and> (\<forall>c\<in>set pre. is_space c) \<and> (\<forall>c\<in>set post. is_space c)
         \<and> (mid = [] \<or> (\<not> is_space (hd mid) \<and> \<not> is_space (last mid)))
         \<and> sanitize_column_name s
             = map (\<lambda>c. lower_char (if c = CHR '' '' then CHR ''_'' else c)) mid"
    by blast
qed

theorem sanitize_column_name_spec_witness:
  "sanitize_column_name (sanitize_column_name ''  Unit Price'') = ''unit_price''"
proof -
  have "sanitize_column_name ''  Unit Price'' = ''unit_price''"
    by code_simp
  with sanitize_column_name_spec [of "''  Unit Price''"] show ?thesis
    by simp
qed

text \<open>
  Claim C10.  Uniqueness is checked on the labels as they are loaded, and the labels are
  sanitized afterwards without a second check.  The tables with the columns \<open>A\<close>, \<open>a\<close>
  and with the columns \<open>a b\<close>, \<open>a_b\<close> pass the validator, and \<^verbatim>\<open>generate_chart\<close>
  goes on with a table whose two columns carry the same label.
\<close>

theorem sanitized_labels_collide:
  "fst (validate_dataset \<lparr>columns = [''A'', ''a''], rows = [[JInt 1, JInt 2]]\<rparr>) = Inr ()
   \<and> \<not> distinct (map sanitize_column_name [''A'', ''a''])
   \<and> fst (validate_dataset \<lparr>columns = [''a b'', ''a_b''], rows = [[JInt 1, JInt 2]]\<rparr>) = Inr ()
   \<and> \<not> distinct (map sanitize_column_name [''a b'', ''a_b''])
   \<and> snd (chart_inputs example_env ''plot'' ''A,a\<newline>1,2'' (Some ''bar'') (Some ''manual''))
       = Inr (\<lparr>columns = [''a'', ''a''], rows = [[JInt 1, JInt 2]]\<rparr>, JStr ''bar'', ''a'', ''a'')
   \<and> snd (chart_inputs example_env ''plot'' ''a b,a_b\<newline>1,2'' (Some ''bar'') (Some ''manual''))
       = Inr (\<lparr>columns = [''a_b'', ''a_b''], rows = [[JInt 1, JInt 2]]\<rparr>, JStr ''bar'', ''a_b'', ''a_b'')"
  by code_simp

theorem sanitized_labels_collide_witness:
  "fst (validate_dataset \<lparr>columns = [''A'', ''a''], rows = [[JInt 1, JInt 2]]\<rparr>) = Inr ()
   \<and> map sanitize_column_name [''A'', ''a''] = [''a'', ''a'']"
proof -
  have "map sanitize_column_name [''A'', ''a''] = [''a'', ''a'']"
    by code_simp
  with sanitized_labels_collide show ?thesis
    by simp
qed

section \<open>The chart configuration\<close>

lemma in_list_iff: "in_list v cols \<longleftrightarrow> v \<in> JStr ` set cols"
  by (cases v) (auto simp: in_list_def)

lemma default_config_two:
  "2 \<le> length cols \<Longrightarrow>
   default_config cols
     = Inr (JObj [(''chart_type'', JStr ''scatter''), (''x'', JStr (cols ! 0)), (''y'', JStr (cols ! 1))])"
  by (simp add: default_config_def)

lemma default_config_one:
  "length cols = 1 \<Longrightarrow>
   default_config cols
     = Inr (JObj [(''chart_type'', JStr ''scatter''), (''x'', JStr (cols ! 0)), (''y'', JNull)])"
  by (cases cols) (simp_all add: default_config_def)

lemma interpret_query_cases:
  "snd (interpret_query env query cols) = default_config cols
   \<or> (\<exists>text kvs t x y.
        model_available env
        \<and> generate_content env (chart_prompt env query cols) = Inr text
        \<and> json_loads env (strip text) = Inr (JObj kvs)
        \<and> map_of kvs ''chart_type'' = Some t \<and> map_of kvs ''x'' = Some x \<and> map_of kvs ''y'' = Some y
        \<and> in_list x cols \<and> in_list y cols
        \<and> snd (interpret_query env query cols) = Inr (JObj kvs))"
  by (auto simp: interpret_query_def Let_def split: sum.splits json.splits option.splits)

lemma interpret_query_fallback_default:
  assumes "\<not> model_available env
     \<or> (\<exists>e. generate_content env (chart_prompt env query cols) = Inl e)
     \<or> (\<exists>text e. generate_content env (chart_prompt env query cols) = Inr text
           \<and> json_loads env (strip text) = Inl e)
     \<or> (\<exists>text v. generate_content env (chart_prompt env query cols) = Inr text
           \<and> json_loads env (strip text) = Inr v
           \<and> ((\<forall>kvs. v \<noteq> JObj kvs)
              \<or> (\<exists>kvs. v = JObj kvs
                    \<and> (map_of kvs ''chart_type'' = None \<or> map_of kvs ''x'' = None
                        \<or> map_of kvs ''y'' = None))
              \<or> (\<exists>kvs x y. v = JObj kvs \<and> map_of kvs ''x'' = Some x \<and> map_of kvs ''y'' = Some y
                    \<and> (x \<notin> JStr ` set cols \<or> y \<notin> JStr ` set cols))))"
  shows "snd (interpret_query env query cols) = default_config cols"
  using assms interpret_query_cases [of env query cols]
  by (auto simp: in_list_iff)

text \<open>
  Claim C1, amended.  When the language model is unavailable, or its call fails, or its
  reply is not parseable as JSON, or the parsed value is not an object with the three keys
  \<open>chart_type\<close>, \<open>x\<close>, \<open>y\<close>, or the returned \<open>x\<close> or \<open>y\<close> is not among the columns,
  \<^verbatim>\<open>interpret_query\<close> returns the default configuration: scatter, the first column
  and the second column when there are at least two columns, and scatter, the only
  column and \<^verbatim>\<open>None\<close> when there is exactly one column.
\<close>

theorem interpret_query_fallback:
  assumes "\<not> model_available env
     \<or> (\<exists>e. generate_content env (chart_prompt env query cols) = Inl e)
     \<or> (\<exists>text e. generate_content env (chart_prompt env query cols) = Inr text
           \<and> json_loads env (strip text) = Inl e)
     \<or> (\<exists>text v. generate_content env (chart_prompt env query cols) = Inr text
           \<and> json_loads env (strip text) = Inr v
           \<and> ((\<forall>kvs. v \<noteq> JObj kvs)
              \<or> (\<exists>kvs. v = JObj kvs
                    \<and> (map_of kvs ''chart_type'' = None \<or> map_of kvs ''x'' = None
                        \<or> map_of kvs ''y'' = None))
              \<or> (\<exists>kvs x y. v = JObj kvs \<and> map_of kvs ''x'' = Some x \<and> map_of kvs ''y'' = Some y
                    \<and> (x \<notin> JStr ` set cols \<or> y \<notin> JStr ` set cols))))"
  shows "(2 \<le> length cols \<longrightarrow>
            snd (interpret_query env query cols)
              = Inr (JObj [(''chart_type'', JStr ''scatter''), (''x'', JStr (cols ! 0)),
                           (''y'', JStr (cols ! 1))]))
       \<and> (length cols = 1 \<longrightarrow>
            snd (interpret_query env query cols)
              = Inr (JObj [(''chart_type'', JStr ''scatter''), (''x'', JStr (cols ! 0)),
                           (''y'', JNull)]))"
proof -
  from assms have "snd (interpret_query env query cols) = default_config cols"
    by (rule interpret_query_fallback_default)
  then show ?thesis
    by (simp add: default_config_two default_config_one)
qed

theorem interpret_query_fallback_witness:
  \<open>snd (interpret_query example_env ''plot a vs b'' [''a'', ''b''])
     = Inr (JObj [(''chart_type'', JStr ''scatter''), (''x'', JStr ''a''), (''y'', JStr ''b'')])
   \<and> snd (interpret_query (reply_env ''{"chart_type": "bar", "x": "a"}'') ''plot a vs b'' [''a'', ''b''])
     = Inr (JObj [(''chart_type'', JStr ''scatter''), (''x'', JStr ''a''), (''y'', JStr ''b'')])
   \<and> snd (interpret_query example_env ''plot a vs b'' [''a''])
     = Inr (JObj [(''chart_type'', JStr ''scatter''), (''x'', JStr ''a''), (''y'', JNull)])\<close>
proof -
  have 1: \<open>strip ''{"chart_type": "bar", "x": "a"}'' = ''{"chart_type": "bar", "x": "a"}''\<close>
    by code_simp
  show ?thesis
    using interpret_query_fallback [of example_env "''plot a vs b''" "[''a'', ''b'']"]
      interpret_query_fallback [of \<open>reply_env ''{"chart_type": "bar", "x": "a"}''\<close>
        "''plot a vs b''" "[''a'', ''b'']"]
      interpret_query_fallback [of example_env "''plot a vs b''" "[''a'']"]
    by (simp add: example_env_def reply_env_def example_json_loads_def 1)
qed

text \<open>
  With no column at all the default cannot be built: \<^verbatim>\<open>columns[0]\<close> raises
  \<^verbatim>\<open>IndexError\<close> in the handler, and no configuration is returned.
\<close>

theorem interpret_query_no_columns:
  "length ([] :: string list) < 2
   \<and> generate_content example_env (chart_prompt example_env ''plot'' [])
       = Inl (Exn RuntimeError ''service unavailable'' None)
   \<and> snd (interpret_query example_env ''plot'' [])
       = Inl (Exn IndexError ''list index out of range'' None)"
  by (simp add: interpret_query_def default_config_def example_env_def)

text \<open>
  Claim C7, amended.  For every query, every non-empty explicit chart type and every
  list of at least two columns, the configuration is the explicit type with the first
  two columns; no call leaves the process, and neither the query nor the language model
  has a part in the result.
\<close>

theorem explicit_chart_type_config:
  assumes "t \<noteq> []" and "2 \<le> length cols"
  shows "resolve_config env query (Some t) cols
           = ([], Inr (JObj [(''chart_type'', JStr t), (''x'', JStr (cols ! 0)),
                             (''y'', JStr (cols ! 1))]))"
proof -
  from assms(2) obtain c0 c1 rest where "cols = c0 # c1 # rest"
    by (cases cols; cases "tl cols") auto
  with assms(1) show ?thesis
    by (simp add: resolve_config_def truthy_def)
qed

theorem explicit_chart_type_config_witness:
  "resolve_config example_env ''anything'' (Some ''bar'') [''a'', ''b'', ''c'']
     = ([], Inr (JObj [(''chart_type'', JStr ''bar''), (''x'', JStr ''a''), (''y'', JStr ''b'')]))"
  using explicit_chart_type_config [of "''bar''" "[''a'', ''b'', ''c'']" example_env "''anything''"]
  by simp

text \<open>
  An explicit chart type that is the empty string is false in \<^verbatim>\<open>if chart_type:\<close>, so
  the language model is asked and its answer is the configuration.
\<close>

theorem empty_chart_type_asks_model:
  \<open>resolve_config (reply_env ''{"chart_type": "bar", "x": "b", "y": "a"}'') ''plot'' (Some '''') [''a'', ''b'']
     = ([GenerateContent
           (chart_prompt (reply_env ''{"chart_type": "bar", "x": "b", "y": "a"}'') ''plot'' [''a'', ''b''])],
        Inr (JObj [(''chart_type'', JStr ''bar''), (''x'', JStr ''b''), (''y'', JStr ''a'')]))
   \<and> resolve_config (reply_env ''{"chart_type": "bar", "x": "b", "y": "a"}'') ''plot'' (Some []) [''a'', ''b'']
     \<noteq> ([], Inr (JObj [(''chart_type'', JStr []), (''x'', JStr ''a''), (''y'', JStr ''b'')]))\<close>
proof -
  have 1: \<open>strip ''{"chart_type": "bar", "x": "b", "y": "a"}'' = ''{"chart_type": "bar", "x": "b", "y": "a"}''\<close>
    by code_simp
  show ?thesis
    by (simp add: resolve_config_def truthy_def interpret_query_def Let_def reply_env_def
        example_env_def example_json_loads_def in_list_def 1)
qed

section \<open>Rendering failures\<close>

lemma create_chart_unsupported:
  assumes "chart_type \<noteq> JStr ''line''" "chart_type \<noteq> JStr ''bar''" "chart_type \<noteq> JStr ''pie''"
    "chart_type \<noteq> JStr ''scatter''" "chart_type \<noteq> JStr ''heatmap''"
  shows "create_chart env chart_type df x y
            = Inl (Exn ValueError ''Failed to generate chart.''
                    (Some (Exn ValueError (''Unsupported chart type: '' @ str_of env chart_type) None)))"
  unfolding create_chart_def using assms by (simp only: if_False sum.case)

lemma create_chart_px_failure:
  assumes "px_chart env name df x y = Inl e"
    and "chart_type = JStr ''line'' \<and> name = ''line''
       \<or> chart_type = JStr ''bar'' \<and> name = ''bar''
       \<or> chart_type = JStr ''pie'' \<and> name = ''pie''
       \<or> chart_type = JStr ''scatter'' \<and> name = ''scatter''
       \<or> chart_type = JStr ''heatmap'' \<and> name = ''density_heatmap''"
  shows "create_chart env chart_type df x y
            = Inl (Exn ValueError ''Failed to generate chart.'' (Some e))"
  using assms(2)
proof (elim disjE conjE)
  assume "chart_type = JStr ''line''" "name = ''line''"
  with assms(1) show ?thesis by (simp add: create_chart_def)
next
  assume "chart_type = JStr ''bar''" "name = ''bar''"
  with assms(1) show ?thesis by (simp add: create_chart_def)
next
  assume "chart_type = JStr ''pie''" "name = ''pie''"
  with assms(1) show ?thesis by (simp add: create_chart_def)
next
  assume "chart_type = JStr ''scatter''" "name = ''scatter''"
  with assms(1) show ?thesis by (simp add: create_chart_def)
next
  assume "chart_type = JStr ''heatmap''" "name = ''density_heatmap''"
  with assms(1) show ?thesis by (simp add: create_chart_def)
qed

text \<open>
  Claim C4, amended.  For every chart type outside line, bar, pie, scatter and heatmap,
  \<^verbatim>\<open>create_chart\<close> raises \<^verbatim>\<open>ValueError("Failed to generate chart.")\<close>, chained to
  the \<^verbatim>\<open>ValueError("Unsupported chart type: ...")\<close> it caught; every failure of the
  rendering of a supported type raises the same \<^verbatim>\<open>ValueError("Failed to generate chart.")\<close>,
  chained to that failure.  The two failures have one class and one message and differ
  in the chained cause only.
\<close>

theorem create_chart_failures:
  "(chart_type \<notin> JStr ` {''line'', ''bar'', ''pie'', ''scatter'', ''heatmap''}
      \<longrightarrow> create_chart env chart_type df x y
            = Inl (Exn ValueError ''Failed to generate chart.''
                    (Some (Exn ValueError (''Unsupported chart type: '' @ str_of env chart_type) None))))
   \<and> ((chart_type, name) \<in> {(JStr ''line'', ''line''), (JStr ''bar'', ''bar''), (JStr ''pie'', ''pie''),
                               (JStr ''scatter'', ''scatter''), (JStr ''heatmap'', ''density_heatmap'')}
       \<and> px_chart env name df x y = Inl e
      \<longrightarrow> create_chart env chart_type df x y
            = Inl (Exn ValueError ''Failed to generate chart.'' (Some e)))"
proof (intro conjI impI)
  assume "chart_type \<notin> JStr ` {''line'', ''bar'', ''pie'', ''scatter'', ''heatmap''}"
  then have "chart_type \<noteq> JStr ''line''" "chart_type \<noteq> JStr ''bar''" "chart_type \<noteq> JStr ''pie''"
    "chart_type \<noteq> JStr ''scatter''" "chart_type \<noteq> JStr ''heatmap''"
    by blast+
  then show "create_chart env chart_type df x y
            = Inl (Exn ValueError ''Failed to generate chart.''
                    (Some (Exn ValueError (''Unsupported chart type: '' @ str_of env chart_type) None)))"
    by (rule create_chart_unsupported)
next
  assume a: "(chart_type, name) \<in> {(JStr ''line'', ''line''), (JStr ''bar'', ''bar''), (JStr ''pie'', ''pie''),
                               (JStr ''scatter'', ''scatter''), (JStr ''heatmap'', ''density_heatmap'')}
       \<and> px_chart env name df x y = Inl e"
  then have "px_chart env name df x y = Inl e"
    by (rule conjunct2)
  moreover from a have "chart_type = JStr ''line'' \<and> name = ''line''
       \<or> chart_type = JStr ''bar'' \<and> name = ''bar''
       \<or> chart_type = JStr ''pie'' \<and> name = ''pie''
       \<or> chart_type = JStr ''scatter'' \<and> name = ''scatter''
       \<or> chart_type = JStr ''heatmap'' \<and> name = ''density_heatmap''"
    by (simp only: insert_iff empty_iff prod.inject simp_thms)
  ultimately show "create_chart env chart_type df x y
            = Inl (Exn ValueError ''Failed to generate chart.'' (Some e))"
    by (rule create_chart_px_failure)
qed

theorem create_chart_failures_witness:
  "create_chart example_env (JStr ''donut'') \<lparr>columns = [''a'', ''b''], rows = [[JInt 1, JInt 2]]\<rparr> ''a'' ''b''
     = Inl (Exn ValueError ''Failed to generate chart.''
             (Some (Exn ValueError ''Unsupported chart type: donut'' None)))
   \<and> create_chart failing_px_env (JStr ''heatmap'') \<lparr>columns = [''a'', ''b''], rows = [[JInt 1, JInt 2]]\<rparr> ''a'' ''b''
     = Inl (Exn ValueError ''Failed to generate chart.''
             (Some (Exn ValueError ''Value of y is not the name of a column in data_frame'' None)))"
  using create_chart_failures [of "JStr ''donut''" example_env
      "\<lparr>columns = [''a'', ''b''], rows = [[JInt 1, JInt 2]]\<rparr>" "''a''" "''b''"]
    create_chart_failures [of "JStr ''heatmap''" failing_px_env
      "\<lparr>columns = [''a'', ''b''], rows = [[JInt 1, JInt 2]]\<rparr>" "''a''" "''b''" "''density_heatmap''"
      "Exn ValueError ''Value of y is not the name of a column in data_frame'' None"]
  by (simp add: str_of_def failing_px_env_def example_env_def)

text \<open>
  An unsupported chart type and a failure of the renderer give the same class and the
  same message, and the endpoint answers both with the same response, 400 and
  \<^verbatim>\<open>"Failed to generate chart."\<close>.
\<close>

theorem chart_failures_indistinguishable:
  "create_chart example_env (JStr ''donut'')
       \<lparr>columns = [''a'', ''b''], rows = [[JInt 1, JInt 2], [JInt 3, JInt 4]]\<rparr> ''a'' ''b''
     = Inl (Exn ValueError ''Failed to generate chart.''
             (Some (Exn ValueError ''Unsupported chart type: donut'' None)))
   \<and> create_chart failing_px_env (JStr ''line'')
       \<lparr>columns = [''a'', ''b''], rows = [[JInt 1, JInt 2], [JInt 3, JInt 4]]\<rparr> ''a'' ''b''
     = Inl (Exn ValueError ''Failed to generate chart.''
             (Some (Exn ValueError ''Value of y is not the name of a column in data_frame'' None)))
   \<and> snd (app_create_chart example_env
            \<lparr>req_query = ''plot a vs b'', req_chart_type = Some ''donut'', req_file = None,
             req_json_data = None, req_manual_data = Some ''a,b\<newline>1,2\<newline>3,4''\<rparr>)
     = Inl (HTTPException 400 ''Failed to generate chart.'')
   \<and> snd (app_create_chart failing_px_env
            \<lparr>req_query = ''plot a vs b'', req_chart_type = Some ''line'', req_file = None,
             req_json_data = None, req_manual_data = Some ''a,b\<newline>1,2\<newline>3,4''\<rparr>)
     = Inl (HTTPException 400 ''Failed to generate chart.'')"
  by code_simp

section \<open>The source of the data\<close>

text \<open>
  Claim C9, amended.  The endpoint takes the first field that is supplied and not empty,
  in the order file, \<^verbatim>\<open>json_data\<close>, \<^verbatim>\<open>manual_data\<close>; that field determines
  \<^verbatim>\<open>data_type\<close> (file, json, manual) and the fields after it are ignored.  When none
  of the three is supplied, the request fails with the client error
  \<^verbatim>\<open>"No data provided"\<close>.
\<close>

theorem data_source_priority:
  "(req_file req = Some file \<and> upload_filename file = Some name
      \<and> (endswith name ''.csv'' \<or> endswith name ''.json'')
      \<longrightarrow> app_create_chart env req
            = handle_exceptions (call_generate_chart
                (generate_chart env (req_query req) (upload_content file) (req_chart_type req)
                   (Some ''file'') (Some name))))
   \<and> (req_file req = None \<and> req_json_data req = Some j \<and> j \<noteq> []
      \<longrightarrow> app_create_chart env req
            = handle_exceptions (call_generate_chart
                (generate_chart env (req_query req) j (req_chart_type req) (Some ''json'') None)))
   \<and> (req_file req = None \<and> (req_json_data req = None \<or> req_json_data req = Some [])
      \<and> req_manual_data req = Some m \<and> m \<noteq> []
      \<longrightarrow> app_create_chart env req
            = handle_exceptions (call_generate_chart
                (generate_chart env (req_query req) m (req_chart_type req) (Some ''manual'') None)))
   \<and> (req_file req = None \<and> (req_json_data req = None \<or> req_json_data req = Some [])
      \<and> (req_manual_data req = None \<or> req_manual_data req = Some [])
      \<longrightarrow> app_create_chart env req = ([], Inl (HTTPException 400 ''No data provided'')))"
  by (auto simp: app_create_chart_def truthy_def handle_exceptions_def)

theorem data_source_priority_witness:
  \<open>app_create_chart example_env
      \<lparr>req_query = ''plot'', req_chart_type = None, req_file = None,
       req_json_data = None, req_manual_data = Some []\<rparr>
     = ([], Inl (HTTPException 400 ''No data provided''))
   \<and> app_create_chart example_env
      \<lparr>req_query = ''plot'', req_chart_type = None,
       req_file = Some \<lparr>upload_filename = Some ''t.csv'', upload_content = ''a,b\<newline>1,2\<newline>3,4''\<rparr>,
       req_json_data = Some ''[{"a": 1, "b": 2}]'', req_manual_data = None\<rparr>
     = handle_exceptions (call_generate_chart
         (generate_chart example_env ''plot'' ''a,b\<newline>1,2\<newline>3,4'' None (Some ''file'') (Some ''t.csv'')))\<close>
proof -
  have e: "endswith ''t.csv'' ''.csv''"
    by code_simp
  show ?thesis
    using data_source_priority [of
      "\<lparr>req_query = ''plot'', req_chart_type = None, req_file = None,
        req_json_data = None, req_manual_data = Some []\<rparr>" _ _ example_env]
      data_source_priority [of
      \<open>\<lparr>req_query = ''plot'', req_chart_type = None,
       req_file = Some \<lparr>upload_filename = Some ''t.csv'', upload_content = ''a,b\<newline>1,2\<newline>3,4''\<rparr>,
       req_json_data = Some ''[{"a": 1, "b": 2}]'', req_manual_data = None\<rparr>\<close>
      "\<lparr>upload_filename = Some ''t.csv'', upload_content = ''a,b\<newline>1,2\<newline>3,4''\<rparr>"
      "''t.csv''" example_env] e
    by simp
qed

text \<open>
  A request with both \<^verbatim>\<open>json_data\<close> and \<^verbatim>\<open>manual_data\<close> is accepted: it is answered
  as the request with \<^verbatim>\<open>json_data\<close> alone is, with a chart of the JSON table.
\<close>

theorem two_sources_accepted:
  \<open>app_create_chart example_env
      \<lparr>req_query = ''plot a vs b'', req_chart_type = Some ''bar'', req_file = None,
       req_json_data = Some ''[{"a": 1, "b": 2}]'', req_manual_data = Some ''a,b\<newline>1,2\<newline>3,4''\<rparr>
     = app_create_chart example_env
      \<lparr>req_query = ''plot a vs b'', req_chart_type = Some ''bar'', req_file = None,
       req_json_data = Some ''[{"a": 1, "b": 2}]'', req_manual_data = None\<rparr>
   \<and> app_create_chart example_env
      \<lparr>req_query = ''plot a vs b'', req_chart_type = Some ''bar'', req_file = None,
       req_json_data = Some ''[{"a": 1, "b": 2}]'', req_manual_data = Some ''a,b\<newline>1,2\<newline>3,4''\<rparr>
     = ([EmbedContent ''plot a vs b <table> chart type bar x axis a y axis b''],
        Inr (JObj [(''chart_type'', JStr ''bar''), (''x_axis'', JStr ''a''), (''y_axis'', JStr ''b''),
                   (''data'', JObj [(''a'', JArr [JInt 1]), (''b'', JArr [JInt 2])]),
                   (''plotly_data'',
                    JObj [(''px'', JStr ''bar''), (''columns'', JArr [JStr ''a'', JStr ''b'']),
                          (''x'', JStr ''a''), (''y'', JStr ''b'')]),
                   (''status'', JStr ''success'')]))\<close>
  by code_simp

section \<open>The result of a chart request\<close>

lemma dict_set_map_of: "map_of (dict_set k v d) = (map_of d)(k \<mapsto> v)"
  by (induction d) (auto simp: fun_eq_iff)

lemma dict_set_keys: "fst ` set (dict_set k v d) = insert k (fst ` set d)"
proof -
  have "fst ` set (dict_set k v d) = dom (map_of (dict_set k v d))"
    by (simp only: dom_map_of_conv_image_fst)
  also have "\<dots> = insert k (dom (map_of d))"
    by (simp add: dict_set_map_of)
  finally show ?thesis
    by (simp only: dom_map_of_conv_image_fst)
qed

lemma to_dict_list_keys: "fst ` set (to_dict_list cs) = fst ` set cs"
proof -
  have "fst ` set (fold (\<lambda>(k, vs) d. dict_set k (JArr vs) d) cs d0) = fst ` set cs \<union> fst ` set d0" for d0
  proof (induction cs arbitrary: d0)
    case Nil
    then show ?case by simp
  next
    case (Cons c cs)
    obtain k' vs' where c: "c = (k', vs')"
      by (cases c)
    have "fst ` set (fold (\<lambda>(k, vs) d. dict_set k (JArr vs) d) (c # cs) d0)
            = fst ` set cs \<union> fst ` set (dict_set k' (JArr vs') d0)"
      using Cons.IH [of "dict_set k' (JArr vs') d0"] c by simp
    also have "\<dots> = fst ` set (c # cs) \<union> fst ` set d0"
      using c by (simp add: dict_set_keys)
    finally show ?case .
  qed
  then show ?thesis
    by (simp add: to_dict_list_def)
qed

lemma to_dict_list_lookup:
  assumes "map_of (to_dict_list cs) k = Some v"
  shows "\<exists>vs. (k, vs) \<in> set cs \<and> v = JArr vs"
proof -
  have "map_of (fold (\<lambda>(k, vs) d. dict_set k (JArr vs) d) cs d0) k = Some v
        \<Longrightarrow> (\<exists>vs. (k, vs) \<in> set cs \<and> v = JArr vs) \<or> map_of d0 k = Some v" for d0
  proof (induction cs arbitrary: d0)
    case Nil
    then show ?case by simp
  next
    case (Cons c cs)
    obtain k' vs' where c: "c = (k', vs')"
      by (cases c)
    from Cons.prems c
    have "map_of (fold (\<lambda>(k, vs) d. dict_set k (JArr vs) d) cs (dict_set k' (JArr vs') d0)) k = Some v"
      by simp
    from Cons.IH [OF this]
    show ?case
      using c by (auto simp: dict_set_map_of split: if_splits)
  qed
  from this [of "[]"] assms show ?thesis
    by (simp add: to_dict_list_def)
qed

lemma getitem_columns_elem:
  assumes "(k, vs) \<in> set (getitem_columns df keys)"
  shows "\<exists>i < length (columns df). columns df ! i = k \<and> vs = map (\<lambda>r. r ! i) (rows df)"
  using assms by (auto simp: getitem_columns_def)

lemma getitem_columns_keys:
  assumes "set keys \<subseteq> set (columns df)"
  shows "fst ` set (getitem_columns df keys) = set keys"
proof
  show "fst ` set (getitem_columns df keys) \<subseteq> set keys"
    by (auto simp: getitem_columns_def)
  show "set keys \<subseteq> fst ` set (getitem_columns df keys)"
  proof
    fix k assume k: "k \<in> set keys"
    with assms have "k \<in> set (columns df)" by auto
    then obtain i where "i < length (columns df)" "columns df ! i = k"
      by (auto simp: in_set_conv_nth)
    with k have "(k, map (\<lambda>r. r ! i) (rows df)) \<in> set (getitem_columns df keys)"
      by (auto simp: getitem_columns_def)
    then show "k \<in> fst ` set (getitem_columns df keys)"
      by force
  qed
qed

lemma data_dict:
  assumes "x \<in> set (columns df)" "y \<in> set (columns df)"
  shows "fst ` set (to_dict_list (getitem_columns df [x, y])) = {x, y}"
    and "\<exists>i < length (columns df). columns df ! i = x
           \<and> map_of (to_dict_list (getitem_columns df [x, y])) x = Some (JArr (map (\<lambda>r. r ! i) (rows df)))"
    and "\<exists>j < length (columns df). columns df ! j = y
           \<and> map_of (to_dict_list (getitem_columns df [x, y])) y = Some (JArr (map (\<lambda>r. r ! j) (rows df)))"
proof -
  let ?d = "to_dict_list (getitem_columns df [x, y])"
  from assms show keys: "fst ` set ?d = {x, y}"
    by (simp add: to_dict_list_keys getitem_columns_keys)
  have look: "\<exists>i < length (columns df). columns df ! i = k
           \<and> map_of ?d k = Some (JArr (map (\<lambda>r. r ! i) (rows df)))" if "k \<in> {x, y}" for k
  proof -
    from that keys have "k \<in> fst ` set ?d" by simp
    then obtain v where v: "map_of ?d k = Some v"
      by (metis domD dom_map_of_conv_image_fst)
    from to_dict_list_lookup [OF this] obtain vs
      where "(k, vs) \<in> set (getitem_columns df [x, y])" "v = JArr vs"
      by blast
    with getitem_columns_elem [of k vs df "[x, y]"] v show ?thesis
      by auto
  qed
  from look [of x] show "\<exists>i < length (columns df). columns df ! i = x
           \<and> map_of ?d x = Some (JArr (map (\<lambda>r. r ! i) (rows df)))" by simp
  from look [of y] show "\<exists>j < length (columns df). columns df ! j = y
           \<and> map_of ?d y = Some (JArr (map (\<lambda>r. r ! j) (rows df)))" by simp
qed

lemma validate_dataset_same: "validate_dataset df = (r, df1) \<Longrightarrow> df1 = df"
  by (auto simp: validate_dataset_def split: if_splits)

lemma in_list_str_of: "in_list v cols \<Longrightarrow> str_of env v \<in> set cols"
  by (cases v) (auto simp: in_list_def str_of_def)

lemma chart_inputs_Inr:
  assumes "chart_inputs env query content chart_type data_type = (tr, Inr (df, ct, x, y))"
  shows "\<exists>df0. load_dataframe env data_type content = Inr df0
           \<and> df = df0\<lparr>columns := map sanitize_column_name (columns df0)\<rparr>
           \<and> x \<in> set (columns df) \<and> y \<in> set (columns df)"
  using assms
  by (auto simp: chart_inputs_def Let_def
      split: sum.splits prod.splits if_splits
      dest!: validate_dataset_same dest: in_list_str_of [of _ _ env])

lemma generate_chart_with_success:
  assumes "chart_inputs env query content chart_type data_type = (tr, Inr (df, ct, x, y))"
    and "create_chart env ct df x y = Inr fig"
  shows "snd (generate_chart_with save env query content chart_type data_type filename)
           = Inr (JObj [(''chart_type'', ct), (''x_axis'', JStr x), (''y_axis'', JStr y),
                        (''data'', JObj (to_dict_list (getitem_columns df [x, y]))),
                        (''plotly_data'', json_roundtrip env fig),
                        (''status'', JStr ''success'')])"
  using assms by (simp add: generate_chart_with_def Let_def)

lemma generate_chart_with_Inr:
  assumes "snd (generate_chart_with save env query content chart_type data_type filename) = Inr response"
  shows "\<exists>tr df ct x y fig.
           chart_inputs env query content chart_type data_type = (tr, Inr (df, ct, x, y))
           \<and> create_chart env ct df x y = Inr fig
           \<and> response = JObj [(''chart_type'', ct), (''x_axis'', JStr x), (''y_axis'', JStr y),
                        (''data'', JObj (to_dict_list (getitem_columns df [x, y]))),
                        (''plotly_data'', json_roundtrip env fig),
                        (''status'', JStr ''success'')]"
  using assms
  by (auto simp: generate_chart_with_def Let_def split: prod.splits sum.splits)

lemma str_of_enrichment:
  "str_of (env\<lparr>embed_content := emb, client_upsert := ups\<rparr>) v = str_of env v"
  by (cases v) (simp_all add: str_of_def)

lemma interpret_query_enrichment:
  "interpret_query (env\<lparr>embed_content := emb, client_upsert := ups\<rparr>) query cols
     = interpret_query env query cols"
  by (simp add: interpret_query_def chart_prompt_def
      cong: sum.case_cong json.case_cong option.case_cong prod.case_cong if_cong)

lemma chart_inputs_enrichment:
  "chart_inputs (env\<lparr>embed_content := emb, client_upsert := ups\<rparr>) query content chart_type data_type
     = chart_inputs env query content chart_type data_type"
  by (simp add: chart_inputs_def load_dataframe_def resolve_config_def interpret_query_enrichment
      str_of_enrichment
      cong: sum.case_cong json.case_cong option.case_cong prod.case_cong list.case_cong if_cong)

lemma create_chart_enrichment:
  "create_chart (env\<lparr>embed_content := emb, client_upsert := ups\<rparr>) ct df x y
     = create_chart env ct df x y"
  by (simp add: create_chart_def str_of_enrichment
      cong: sum.case_cong if_cong)

text \<open>
  Claim C8.  When a request has passed loading, validation, the chart configuration and
  the rendering, the answer is the chart result with status \<^verbatim>\<open>"success"\<close>, whatever
  the embedding call does (\<open>emb\<close>), whatever the write to the vector store does
  (\<open>ups\<close>) and whatever the name \<^verbatim>\<open>save_embeddings\<close> stands for (\<open>save\<close>); the
  endpoint's handlers pass that answer on, so no exception reaches the caller.  A failed
  embedding call makes \<^verbatim>\<open>generate_embedding\<close> return \<^verbatim>\<open>None\<close>.
\<close>

theorem enrichment_failures_not_fatal:
  assumes "chart_inputs env query content chart_type data_type = (tr, Inr (df, ct, x, y))"
    and "create_chart env ct df x y = Inr fig"
  shows "snd (generate_chart_with save (env\<lparr>embed_content := emb, client_upsert := ups\<rparr>)
                query content chart_type data_type filename)
           = Inr (JObj [(''chart_type'', ct), (''x_axis'', JStr x), (''y_axis'', JStr y),
                        (''data'', JObj (to_dict_list (getitem_columns df [x, y]))),
                        (''plotly_data'', json_roundtrip env fig),
                        (''status'', JStr ''success'')])
       \<and> snd (handle_exceptions (call_generate_chart
                (generate_chart_with save (env\<lparr>embed_content := emb, client_upsert := ups\<rparr>)
                   query content chart_type data_type filename)))
           = Inr (JObj [(''chart_type'', ct), (''x_axis'', JStr x), (''y_axis'', JStr y),
                        (''data'', JObj (to_dict_list (getitem_columns df [x, y]))),
                        (''plotly_data'', json_roundtrip env fig),
                        (''status'', JStr ''success'')])
       \<and> (emb text = Inl e
            \<longrightarrow> snd (generate_embedding (env\<lparr>embed_content := emb, client_upsert := ups\<rparr>) text)
                  = None)"
proof -
  let ?env = "env\<lparr>embed_content := emb, client_upsert := ups\<rparr>"
  from assms(1) have "chart_inputs ?env query content chart_type data_type = (tr, Inr (df, ct, x, y))"
    by (simp only: chart_inputs_enrichment)
  moreover from assms(2) have "create_chart ?env ct df x y = Inr fig"
    by (simp only: create_chart_enrichment)
  ultimately have "snd (generate_chart_with save ?env query content chart_type data_type filename)
           = Inr (JObj [(''chart_type'', ct), (''x_axis'', JStr x), (''y_axis'', JStr y),
                        (''data'', JObj (to_dict_list (getitem_columns df [x, y]))),
                        (''plotly_data'', json_roundtrip ?env fig),
                        (''status'', JStr ''success'')])"
    by (rule generate_chart_with_success)
  then show ?thesis
    by (simp add: handle_exceptions_def call_generate_chart_def generate_embedding_def)
qed

theorem enrichment_failures_not_fatal_witness:
  \<open>generate_chart_with imported_save_embeddings embedding_env
      ''plot a vs b'' ''[{"a": 1, "b": 2}]'' (Some ''bar'') (Some ''json'') None
     = ([EmbedContent ''plot a vs b <table> chart type bar x axis a y axis b'',
         Upsert ''charts''
           [\<lparr>point_id = 0, point_vector = [1 / 2, 1 / 4],
             point_payload = [(''a'', JInt 1), (''b'', JInt 2)]\<rparr>]],
        Inr (JObj [(''chart_type'', JStr ''bar''), (''x_axis'', JStr ''a''), (''y_axis'', JStr ''b''),
                   (''data'', JObj [(''a'', JArr [JInt 1]), (''b'', JArr [JInt 2])]),
                   (''plotly_data'',
                    JObj [(''px'', JStr ''bar''), (''columns'', JArr [JStr ''a'', JStr ''b'']),
                          (''x'', JStr ''a''), (''y'', JStr ''b'')]),
                   (''status'', JStr ''success'')]))
   \<and> client_upsert embedding_env ''charts''
        [\<lparr>point_id = 0, point_vector = [1 / 2, 1 / 4],
          point_payload = [(''a'', JInt 1), (''b'', JInt 2)]\<rparr>]
     = Inl (Exn RuntimeError ''connection refused'' None)\<close>
proof -
  let ?T = "\<lparr>columns = [''a'', ''b''], rows = [[JInt 1, JInt 2]]\<rparr>"
  let ?fig = "JObj [(''px'', JStr ''bar''), (''columns'', JArr [JStr ''a'', JStr ''b'']),
                          (''x'', JStr ''a''), (''y'', JStr ''b'')]"
  have ci: \<open>chart_inputs example_env ''plot a vs b'' ''[{"a": 1, "b": 2}]'' (Some ''bar'') (Some ''json'')
              = ([], Inr (?T, JStr ''bar'', ''a'', ''b''))\<close>
    by code_simp
  have cc: "create_chart example_env (JStr ''bar'') ?T ''a'' ''b'' = Inr ?fig"
    by code_simp
  have d: "to_dict_list (getitem_columns ?T [''a'', ''b'']) = [(''a'', JArr [JInt 1]), (''b'', JArr [JInt 2])]"
    by code_simp
  have f: \<open>fst (generate_chart_with imported_save_embeddings embedding_env
      ''plot a vs b'' ''[{"a": 1, "b": 2}]'' (Some ''bar'') (Some ''json'') None)
     = [EmbedContent ''plot a vs b <table> chart type bar x axis a y axis b'',
         Upsert ''charts''
           [\<lparr>point_id = 0, point_vector = [1 / 2, 1 / 4],
             point_payload = [(''a'', JInt 1), (''b'', JInt 2)]\<rparr>]]\<close>
    by code_simp
  have s: \<open>snd (generate_chart_with imported_save_embeddings embedding_env
      ''plot a vs b'' ''[{"a": 1, "b": 2}]'' (Some ''bar'') (Some ''json'') None)
     = Inr (JObj [(''chart_type'', JStr ''bar''), (''x_axis'', JStr ''a''), (''y_axis'', JStr ''b''),
                   (''data'', JObj [(''a'', JArr [JInt 1]), (''b'', JArr [JInt 2])]),
                   (''plotly_data'', ?fig),
                   (''status'', JStr ''success'')])\<close>
    unfolding embedding_env_def
    using enrichment_failures_not_fatal [OF ci cc, where save = imported_save_embeddings
        and emb = "\<lambda>t. Inr [1 / 2, 1 / 4]"
        and ups = "\<lambda>c ps. Inl (Exn RuntimeError ''connection refused'' None)"
        and filename = None]
    by (simp add: d example_env_def)
  have u: "client_upsert embedding_env ''charts''
        [\<lparr>point_id = 0, point_vector = [1 / 2, 1 / 4],
          point_payload = [(''a'', JInt 1), (''b'', JInt 2)]\<rparr>]
     = Inl (Exn RuntimeError ''connection refused'' None)"
    by (simp add: embedding_env_def)
  from f s u show ?thesis
    by (simp add: prod_eq_iff)
qed

text \<open>
  Claim C3, amended.  For every successful \<^verbatim>\<open>generate_chart\<close> request, the \<open>data\<close>
  field of the result is an object whose keys are the resolved column names, the values
  of \<open>x_axis\<close> and \<open>y_axis\<close>; under each of them it holds the cells of a column of
  the loaded table whose sanitized label is that name.
\<close>

theorem chart_result_data:
  assumes "snd (generate_chart env query content chart_type data_type filename) = Inr response"
  shows "\<exists>df0 kvs d x y i j.
           load_dataframe env data_type content = Inr df0
         \<and> response = JObj kvs
         \<and> map_of kvs ''x_axis'' = Some (JStr x) \<and> map_of kvs ''y_axis'' = Some (JStr y)
         \<and> map_of kvs ''data'' = Some (JObj d)
         \<and> fst ` set d = {x, y}
         \<and> i < length (columns df0) \<and> sanitize_column_name (columns df0 ! i) = x
         \<and> map_of d x = Some (JArr (map (\<lambda>r. r ! i) (rows df0)))
         \<and> j < length (columns df0) \<and> sanitize_column_name (columns df0 ! j) = y
         \<and> map_of d y = Some (JArr (map (\<lambda>r. r ! j) (rows df0)))"
proof -
  from assms obtain tr df ct x y fig
    where ci: "chart_inputs env query content chart_type data_type = (tr, Inr (df, ct, x, y))"
      and r: "response = JObj [(''chart_type'', ct), (''x_axis'', JStr x), (''y_axis'', JStr y),
                        (''data'', JObj (to_dict_list (getitem_columns df [x, y]))),
                        (''plotly_data'', json_roundtrip env fig),
                        (''status'', JStr ''success'')]"
    unfolding generate_chart_def by (blast dest: generate_chart_with_Inr)
  from chart_inputs_Inr [OF ci] obtain df0
    where l: "load_dataframe env data_type content = Inr df0"
      and df: "df = df0\<lparr>columns := map sanitize_column_name (columns df0)\<rparr>"
      and x: "x \<in> set (columns df)" and y: "y \<in> set (columns df)"
    by blast
  let ?d = "to_dict_list (getitem_columns df [x, y])"
  from data_dict(2) [OF x y] obtain i
    where i: "i < length (columns df)" "columns df ! i = x"
      "map_of ?d x = Some (JArr (map (\<lambda>r. r ! i) (rows df)))"
    by blast
  from data_dict(3) [OF x y] obtain j
    where j: "j < length (columns df)" "columns df ! j = y"
      "map_of ?d y = Some (JArr (map (\<lambda>r. r ! j) (rows df)))"
    by blast
  have keys: "fst ` set ?d = {x, y}"
    using x y by (rule data_dict(1))
  from i df have i': "i < length (columns df0)" "sanitize_column_name (columns df0 ! i) = x"
    "map_of ?d x = Some (JArr (map (\<lambda>r. r ! i) (rows df0)))"
    by simp_all
  from j df have j': "j < length (columns df0)" "sanitize_column_name (columns df0 ! j) = y"
    "map_of ?d y = Some (JArr (map (\<lambda>r. r ! j) (rows df0)))"
    by simp_all
  have m: "map_of [(''chart_type'', ct), (''x_axis'', JStr x), (''y_axis'', JStr y),
                        (''data'', JObj ?d),
                        (''plotly_data'', json_roundtrip env fig),
                        (''status'', JStr ''success'')] ''x_axis'' = Some (JStr x)"
    "map_of [(''chart_type'', ct), (''x_axis'', JStr x), (''y_axis'', JStr y),
                        (''data'', JObj ?d),
                        (''plotly_data'', json_roundtrip env fig),
                        (''status'', JStr ''success'')] ''y_axis'' = Some (JStr y)"
    "map_of [(''chart_type'', ct), (''x_axis'', JStr x), (''y_axis'', JStr y),
                        (''data'', JObj ?d),
                        (''plotly_data'', json_roundtrip env fig),
                        (''status'', JStr ''success'')] ''data'' = Some (JObj ?d)"
    by simp_all
  from l r m keys i' j' show ?thesis
    by blast
qed

theorem chart_result_data_witness:
  "snd (generate_chart example_env ''plot a vs b'' ''a,b\<newline>1,2\<newline>3,4'' None (Some ''manual'') None)
     = Inr (JObj [(''chart_type'', JStr ''scatter''), (''x_axis'', JStr ''a''), (''y_axis'', JStr ''b''),
                  (''data'', JObj [(''a'', JArr [JInt 1, JInt 3]), (''b'', JArr [JInt 2, JInt 4])]),
                  (''plotly_data'',
                   JObj [(''px'', JStr ''scatter''), (''columns'', JArr [JStr ''a'', JStr ''b'']),
                         (''x'', JStr ''a''), (''y'', JStr ''b'')]),
                  (''status'', JStr ''success'')])
   \<and> (\<exists>df0 kvs d x y i j.
         load_dataframe example_env (Some ''manual'') ''a,b\<newline>1,2\<newline>3,4'' = Inr df0
         \<and> JObj [(''chart_type'', JStr ''scatter''), (''x_axis'', JStr ''a''), (''y_axis'', JStr ''b''),
                  (''data'', JObj [(''a'', JArr [JInt 1, JInt 3]), (''b'', JArr [JInt 2, JInt 4])]),
                  (''plotly_data'',
                   JObj [(''px'', JStr ''scatter''), (''columns'', JArr [JStr ''a'', JStr ''b'']),
                         (''x'', JStr ''a''), (''y'', JStr ''b'')]),
                  (''status'', JStr ''success'')] = JObj kvs
         \<and> map_of kvs ''x_axis'' = Some (JStr x) \<and> map_of kvs ''y_axis'' = Some (JStr y)
         \<and> map_of kvs ''data'' = Some (JObj d)
         \<and> fst ` set d = {x, y}
         \<and> i < length (columns df0) \<and> sanitize_column_name (columns df0 ! i) = x
         \<and> map_of d x = Some (JArr (map (\<lambda>r. r ! i) (rows df0)))
         \<and> j < length (columns df0) \<and> sanitize_column_name (columns df0 ! j) = y
         \<and> map_of d y = Some (JArr (map (\<lambda>r. r ! j) (rows df0))))"
proof -
  have h: "snd (generate_chart example_env ''plot a vs b'' ''a,b\<newline>1,2\<newline>3,4'' None (Some ''manual'') None)
     = Inr (JObj [(''chart_type'', JStr ''scatter''), (''x_axis'', JStr ''a''), (''y_axis'', JStr ''b''),
                  (''data'', JObj [(''a'', JArr [JInt 1, JInt 3]), (''b'', JArr [JInt 2, JInt 4])]),
                  (''plotly_data'',
                   JObj [(''px'', JStr ''scatter''), (''columns'', JArr [JStr ''a'', JStr ''b'']),
                         (''x'', JStr ''a''), (''y'', JStr ''b'')]),
                  (''status'', JStr ''success'')])"
    by code_simp
  from h chart_result_data [OF h] show ?thesis
    by (rule conjI)
qed

text \<open>
  For \<^verbatim>\<open>manual_data = "a,b\n1,2\n3,4"\<close> and the default configuration the \<open>data\<close>
  field is \<^verbatim>\<open>{"a": [1, 3], "b": [2, 4]}\<close>: it has no key \<open>x\<close> and no key \<open>y\<close>.
\<close>

theorem chart_data_keyed_by_labels:
  "snd (generate_chart example_env ''plot a vs b'' ''a,b\<newline>1,2\<newline>3,4'' None (Some ''manual'') None)
     = Inr (JObj [(''chart_type'', JStr ''scatter''), (''x_axis'', JStr ''a''), (''y_axis'', JStr ''b''),
                  (''data'', JObj [(''a'', JArr [JInt 1, JInt 3]), (''b'', JArr [JInt 2, JInt 4])]),
                  (''plotly_data'',
                   JObj [(''px'', JStr ''scatter''), (''columns'', JArr [JStr ''a'', JStr ''b'']),
                         (''x'', JStr ''a''), (''y'', JStr ''b'')]),
                  (''status'', JStr ''success'')])
   \<and> map_of [(''a'', JArr [JInt 1, JInt 3]), (''b'', JArr [JInt 2, JInt 4])] ''x'' = None
   \<and> map_of [(''a'', JArr [JInt 1, JInt 3]), (''b'', JArr [JInt 2, JInt 4])] ''y'' = None"
  by code_simp

section \<open>Writing to the vector store\<close>

text \<open>
  With a vector for every row, \<^verbatim>\<open>save_embeddings\<close> builds one point per row, in the
  order of the rows: its id is the hash of the row's index and the file name, its vector is
  the vector at the row's index, and its payload is the row (with the file name, when there
  is one).
\<close>

lemma build_points_enough:
  assumes "i + length rws \<le> length embeddings"
  shows "\<exists>ps. build_points env cols embeddings filename i rws pts = Inr (pts @ ps)
           \<and> length ps = length rws
           \<and> (\<forall>k < length rws.
                 point_id (ps ! k) = py_hash env (i + k) filename
                 \<and> point_vector (ps ! k) = embeddings ! (i + k)
                 \<and> point_payload (ps ! k)
                     = (if truthy filename
                        then dict_set ''filename'' (JStr (the filename)) (row_to_dict cols (rws ! k))
                        else row_to_dict cols (rws ! k)))"
  using assms
proof (induction rws arbitrary: i pts)
  case Nil
  then show ?case by simp
next
  case (Cons row rest)
  let ?p = "\<lparr>point_id = py_hash env i filename, point_vector = embeddings ! i,
             point_payload = (if truthy filename
                        then dict_set ''filename'' (JStr (the filename)) (row_to_dict cols row)
                        else row_to_dict cols row)\<rparr>"
  from Cons.prems have i: "i < length embeddings" and "Suc i + length rest \<le> length embeddings"
    by simp_all
  from Cons.IH [OF this(2), of "pts @ [?p]"] obtain ps
    where ps: "build_points env cols embeddings filename (Suc i) rest (pts @ [?p]) = Inr ((pts @ [?p]) @ ps)"
      "length ps = length rest"
      "\<forall>k < length rest.
                 point_id (ps ! k) = py_hash env (Suc i + k) filename
                 \<and> point_vector (ps ! k) = embeddings ! (Suc i + k)
                 \<and> point_payload (ps ! k)
                     = (if truthy filename
                        then dict_set ''filename'' (JStr (the filename)) (row_to_dict cols (rest ! k))
                        else row_to_dict cols (rest ! k))"
    by blast
  have "build_points env cols embeddings filename i (row # rest) pts = Inr (pts @ (?p # ps))"
    using i ps(1) by (simp add: Let_def)
  moreover have "length (?p # ps) = length (row # rest)"
    using ps(2) by simp
  moreover have "\<forall>k < length (row # rest).
                 point_id ((?p # ps) ! k) = py_hash env (i + k) filename
                 \<and> point_vector ((?p # ps) ! k) = embeddings ! (i + k)
                 \<and> point_payload ((?p # ps) ! k)
                     = (if truthy filename
                        then dict_set ''filename'' (JStr (the filename)) (row_to_dict cols ((row # rest) ! k))
                        else row_to_dict cols ((row # rest) ! k))"
  proof (intro allI impI)
    fix k assume "k < length (row # rest)"
    then show "point_id ((?p # ps) ! k) = py_hash env (i + k) filename
                 \<and> point_vector ((?p # ps) ! k) = embeddings ! (i + k)
                 \<and> point_payload ((?p # ps) ! k)
                     = (if truthy filename
                        then dict_set ''filename'' (JStr (the filename)) (row_to_dict cols ((row # rest) ! k))
                        else row_to_dict cols ((row # rest) ! k))"
      using ps(3) by (cases k) simp_all
  qed
  ultimately show ?case
    by blast
qed

text \<open>With a single vector and two rows or more, the loop fails at index 1 and nothing is written.\<close>

lemma save_embeddings_single_vector:
  assumes "2 \<le> length (rows df)"
  shows "save_embeddings env df [v] collection_name filename
           = ([], Inl (Exn IndexError ''list index out of range'' None))"
proof -
  from assms obtain r0 r1 rest where "rows df = r0 # r1 # rest"
    by (cases "rows df"; cases "tl (rows df)") auto
  then show ?thesis
    by (simp add: save_embeddings_def Let_def)
qed

text \<open>
  Claim C2 fails on the code.  The claim is that the write builds one record per row, with
  the request's single vector repeated.  For a table of two rows and the list of one vector
  that \<^verbatim>\<open>generate_chart\<close> passes, \<^verbatim>\<open>save_embeddings\<close> raises \<^verbatim>\<open>IndexError\<close> at
  \<^verbatim>\<open>embeddings[1]\<close> and writes nothing; in \<^verbatim>\<open>routes.py\<close> the call does not even
  reach it, because the name is not imported and raises \<^verbatim>\<open>NameError\<close>.  With either
  binding the request makes no write to the vector store.
\<close>

theorem single_embedding_many_rows:
  "save_embeddings embedding_env
      \<lparr>columns = [''a'', ''b''], rows = [[JInt 1, JInt 2], [JInt 3, JInt 4]]\<rparr>
      [[1 / 2, 1 / 4]] COLLECTION_NAME None
     = ([], Inl (Exn IndexError ''list index out of range'' None))
   \<and> routes_save_embeddings embedding_env
      \<lparr>columns = [''a'', ''b''], rows = [[JInt 1, JInt 2], [JInt 3, JInt 4]]\<rparr>
      [[1 / 2, 1 / 4]] None
     = ([], Inl (Exn NameError
               (''name '' @ [CHR 0x27] @ ''save_embeddings'' @ [CHR 0x27] @ '' is not defined'') None))
   \<and> fst (generate_chart embedding_env ''plot a vs b'' ''a,b\<newline>1,2\<newline>3,4'' None (Some ''manual'') None)
     = [GenerateContent (chart_prompt embedding_env ''plot a vs b'' [''a'', ''b'']),
        EmbedContent ''plot a vs b <table> chart type scatter x axis a y axis b'']
   \<and> fst (generate_chart_with imported_save_embeddings embedding_env
             ''plot a vs b'' ''a,b\<newline>1,2\<newline>3,4'' None (Some ''manual'') None)
     = [GenerateContent (chart_prompt embedding_env ''plot a vs b'' [''a'', ''b'']),
        EmbedContent ''plot a vs b <table> chart type scatter x axis a y axis b'']"
  by code_simp

theorem single_embedding_many_rows_witness:
  "fst (save_embeddings embedding_env
      \<lparr>columns = [''a'', ''b''], rows = [[JInt 1, JInt 2], [JInt 3, JInt 4]]\<rparr>
      [[1 / 2, 1 / 4]] COLLECTION_NAME None) = []"
  using single_embedding_many_rows by simp

end
